theory Spec2Isabelle
  imports Main "HOL-Library.AList"
begin

section \<open>The basic training container notebook\<close>

text \<open>
  The repository is one Jupyter notebook, \<^verbatim>\<open>basic_training_container\<close>. Its code cells
  resolve the execution role, the account and the region, run a shell script that builds
  and pushes a container image, compose the image's ECR reference, and submit two
  training jobs through the SageMaker Python SDK: one reading from S3, one from an EFS
  file system.

  The notebook is modelled as the linear script that "Run All" executes: the code cells
  in order, each statement in order, stopping at the first exception that a cell lets
  out. What the notebook
  cannot decide itself (the role of the instance, the configured region, the exit status
  of a shell command, the answer of the training service) is read from an environment
  record. The run returns the trace of what it printed, ran and submitted, with the
  exception that stopped it, if any.

  The classes of the SDK (\<^verbatim>\<open>Estimator\<close>, \<^verbatim>\<open>s3_input\<close>, \<^verbatim>\<open>FileSystemInput\<close>) are not code of
  the repository. An object of one of them is modelled by the arguments the notebook gives
  it, as a record; what the SDK does with them (its own checks of these arguments, the
  request it sends) is part of the environment, behind \<^verbatim>\<open>fit\<close>. The imports and the
  constructors, which the notebook calls with literals, are taken to return.
\<close>

subsection \<open>Python values and exceptions\<close>

datatype py_error =
    IndexError
  | ValueError
  | Unsupported
  | Raised string

text \<open>
  \<^verbatim>\<open>IndexError\<close> and \<^verbatim>\<open>ValueError\<close> are Python's own; \<^verbatim>\<open>Raised msg\<close> is an exception raised
  inside an external call (boto3, the SageMaker SDK), carried by its message;
  \<^verbatim>\<open>Unsupported\<close> marks a feature of \<^verbatim>\<open>str.format\<close> that the model does not interpret.
\<close>

text \<open>\<^verbatim>\<open>str(x)\<close> for a value that is a string or \<^verbatim>\<open>None\<close> (\<^verbatim>\<open>region_name\<close> of a boto3 session is
  \<^verbatim>\<open>None\<close> when no region is configured).\<close>

definition py_str :: "string option \<Rightarrow> string" where
  "py_str v = (case v of None \<Rightarrow> ''None'' | Some s \<Rightarrow> s)"

text \<open>\<^verbatim>\<open>s.split(sep)\<close> for a separator of one character: the fields between the occurrences
  of the separator, at least one field.\<close>

fun split_on :: "char \<Rightarrow> string \<Rightarrow> string list" where
  "split_on sep [] = [[]]"
| "split_on sep (c # cs) =
     (if c = sep then [] # split_on sep cs
      else (case split_on sep cs of
              [] \<Rightarrow> [[c]]
            | f # fs \<Rightarrow> (c # f) # fs))"

text \<open>\<^verbatim>\<open>xs[i]\<close> for an index that is not negative.\<close>

definition py_index :: "'a list \<Rightarrow> nat \<Rightarrow> py_error + 'a" where
  "py_index xs i = (if i < length xs then Inr (xs ! i) else Inl IndexError)"

subsection \<open>\<^verbatim>\<open>str.format\<close> with numbered fields\<close>

text \<open>
  \<^verbatim>\<open>template.format(*args)\<close> for string arguments, read left to right: literal text,
  the escapes \<^verbatim>\<open>{{\<close> and \<^verbatim>\<open>}}\<close>, and replacement fields \<^verbatim>\<open>{n}\<close> with a decimal index.
  A lone brace, an unfinished field or an index past \<^verbatim>\<open>sys.maxsize\<close> (\<^verbatim>\<open>2**63 - 1\<close> on a 64-bit platform) is a
  \<^verbatim>\<open>ValueError\<close>, an index past the arguments an \<^verbatim>\<open>IndexError\<close>. Named fields, automatic numbering, conversions and format specifications
  are not interpreted.
\<close>

datatype fmt_state = Lit | Open | Field nat | Close

definition is_digit :: "char \<Rightarrow> bool" where
  "is_digit c = (c \<in> set ''0123456789'')"

definition digit_val :: "char \<Rightarrow> nat" where
  "digit_val c = of_char c - 48"

fun format_from :: "fmt_state \<Rightarrow> string \<Rightarrow> string list \<Rightarrow> py_error + string" where
  "format_from st [] args = (if st = Lit then Inr [] else Inl ValueError)"
| "format_from Lit (c # cs) args =
     (if c = CHR ''{'' then format_from Open cs args
      else if c = CHR ''}'' then format_from Close cs args
      else map_sum id ((#) c) (format_from Lit cs args))"
| "format_from Open (c # cs) args =
     (if c = CHR ''{'' then map_sum id ((#) c) (format_from Lit cs args)
      else if is_digit c then format_from (Field (digit_val c)) cs args
      else Inl Unsupported)"
| "format_from (Field n) (c # cs) args =
     (if is_digit c then
        (if 10 * n + digit_val c > 9223372036854775807 then Inl ValueError
         else format_from (Field (10 * n + digit_val c)) cs args)
      else if c = CHR ''}'' then
        (if n < length args
         then map_sum id ((@) (args ! n)) (format_from Lit cs args)
         else Inl IndexError)
      else Inl Unsupported)"
| "format_from Close (c # cs) args =
     (if c = CHR ''}'' then map_sum id ((#) c) (format_from Lit cs args)
      else Inl ValueError)"

definition py_format :: "string \<Rightarrow> string list \<Rightarrow> py_error + string" where
  "py_format template args = format_from Lit template args"

subsection \<open>The objects handed to the SDK\<close>

text \<open>A hyperparameter value: a string, an integer, or a float literal carried by its
  source text (no arithmetic is done on it).\<close>

datatype hp_value = HStr string | HInt int | HFloat string

record estimator =
  image_name :: string
  role :: string
  train_instance_count :: int
  train_instance_type :: string
  base_job_name :: string
  subnets :: "string list option"
  security_group_ids :: "string list option"
  hyperparam_dict :: "(string \<times> hp_value) list"

record s3_input =
  s3_data :: string
  content_type :: string

record file_system_input =
  file_system_id :: string
  file_system_type :: string
  directory_path :: string
  file_system_access_mode :: string

datatype channel = S3 s3_input | FileSystem file_system_input

text \<open>\<^verbatim>\<open>Estimator(image, role, train_instance_count=..., ...)\<close>: the keyword arguments the
  notebook leaves out are \<^verbatim>\<open>None\<close>, and no hyperparameter is set yet.\<close>

definition Estimator ::
  "string \<Rightarrow> string \<Rightarrow> int \<Rightarrow> string \<Rightarrow> string \<Rightarrow> string list option \<Rightarrow> string list option
   \<Rightarrow> estimator" where
  "Estimator img rl n ty name sn sg =
     \<lparr>image_name = img, role = rl, train_instance_count = n, train_instance_type = ty,
      base_job_name = name, subnets = sn, security_group_ids = sg, hyperparam_dict = []\<rparr>"

text \<open>\<^verbatim>\<open>est.set_hyperparameters(**kwargs)\<close>: each keyword is stored under its name, in the
  order written.\<close>

definition set_hyperparameters :: "(string \<times> hp_value) list \<Rightarrow> estimator \<Rightarrow> estimator" where
  "set_hyperparameters kwargs est =
     est\<lparr>hyperparam_dict := foldl (\<lambda>d (k, v). AList.update k v d) (hyperparam_dict est) kwargs\<rparr>"

subsection \<open>The environment and the trace\<close>

record env =
  get_execution_role :: "py_error + string"
  region_name :: "py_error + string option"
  sagemaker_session :: "py_error + unit"
  default_bucket :: "py_error + string"
  system :: "string \<Rightarrow> nat"
  fit :: "estimator \<Rightarrow> (string \<times> channel) list \<Rightarrow> py_error + unit"

text \<open>
  \<^verbatim>\<open>get_execution_role\<close>, \<^verbatim>\<open>region_name\<close> (of \<^verbatim>\<open>boto3.Session()\<close>), \<^verbatim>\<open>sagemaker_session\<close>
  (the constructor \<^verbatim>\<open>sagemaker.session.Session()\<close>) and \<^verbatim>\<open>default_bucket\<close> return a
  value or raise. \<^verbatim>\<open>system\<close> is the exit status of a command line run by the shell.
  \<^verbatim>\<open>fit\<close> is what the training service answers to a job.
\<close>

datatype event =
    Print string
  | Shell string nat
  | Fit estimator "(string \<times> channel) list"
  | Traceback py_error

text \<open>What was printed, the command line the shell ran with its exit status, the job
  submitted with its channels, and the traceback IPython showed for an exception that a
  cell magic caught.\<close>

type_synonym 'a step = "event list \<times> (py_error + 'a)"

definition ret :: "'a \<Rightarrow> 'a step" where
  "ret a = ([], Inr a)"

definition call :: "py_error + 'a \<Rightarrow> 'a step" where
  "call r = ([], r)"

definition py_print :: "string \<Rightarrow> unit step" where
  "py_print s = ([Print s], Inr ())"

text \<open>
  A line \<^verbatim>\<open>!cmd\<close> of a cell: IPython hands the command line to the system shell and keeps
  the exit status in \<^verbatim>\<open>_exit_code\<close>. It raises nothing when the status is not zero, and the
  notebook never reads \<^verbatim>\<open>_exit_code\<close>: the status only shows in the trace.
\<close>

definition shell :: "env \<Rightarrow> string \<Rightarrow> unit step" where
  "shell e cmd = ([Shell cmd (system e cmd)], Inr ())"

text \<open>\<^verbatim>\<open>est.fit(inputs)\<close>: the job is submitted, and the call returns or raises as the
  service answers.\<close>

definition est_fit :: "env \<Rightarrow> estimator \<Rightarrow> (string \<times> channel) list \<Rightarrow> unit step" where
  "est_fit e est inputs = ([Fit est inputs], fit e est inputs)"

text \<open>One statement after another: an exception ends the sequence, and what was traced
  before it stays.\<close>

definition bind_step :: "'a step \<Rightarrow> ('a \<Rightarrow> 'b step) \<Rightarrow> 'b step" where
  "bind_step m f =
     (case m of
        (tr, Inl x) \<Rightarrow> (tr, Inl x)
      | (tr, Inr a) \<Rightarrow> (case f a of (tr', r) \<Rightarrow> (tr @ tr', r)))"

text \<open>
  A cell that starts with \<^verbatim>\<open>%%time\<close>: the magic runs the body of the cell itself, inside a
  \<^verbatim>\<open>try\<close> whose handler is \<^verbatim>\<open>except: self.shell.showtraceback(); return\<close> (IPython's
  \<^verbatim>\<open>core/magics/execution.py\<close>, in the releases for the Python 3.6 kernel that the notebook
  names). An exception of the body ends the body, is shown as a traceback and goes no
  further: the cell has not failed, and the run goes on with the next cell. The timing
  that the magic prints when the body returns is left out of the trace.
\<close>

definition time_magic :: "unit step \<Rightarrow> unit step" where
  "time_magic body =
     (case body of
        (tr, Inl x) \<Rightarrow> (tr @ [Traceback x], Inr ())
      | (tr, Inr u) \<Rightarrow> (tr, Inr ()))"

subsection \<open>The cells\<close>

definition ecr_namespace :: string where
  "ecr_namespace = ''sagemaker-training-containers/''"

definition prefix :: string where
  "prefix = ''basic-training-container''"

definition ecr_repository_name :: string where
  "ecr_repository_name = ecr_namespace @ prefix"

text \<open>\<^verbatim>\<open>account_id = role.split(':')[4]\<close>\<close>

definition account_id_of :: "string \<Rightarrow> py_error + string" where
  "account_id_of rl = py_index (split_on CHR '':'' rl) 4"

definition cell_setup :: "env \<Rightarrow> (string \<times> string \<times> string option \<times> string) step" where
  "cell_setup e =
     bind_step (call (get_execution_role e)) (\<lambda>rl.
     bind_step (call (account_id_of rl)) (\<lambda>account_id.
     bind_step (call (region_name e)) (\<lambda>region.
     bind_step (call (sagemaker_session e)) (\<lambda>_.
     bind_step (call (default_bucket e)) (\<lambda>bucket.
     bind_step (py_print account_id) (\<lambda>_.
     bind_step (py_print (py_str region)) (\<lambda>_.
     bind_step (py_print rl) (\<lambda>_.
     bind_step (py_print bucket) (\<lambda>_.
     ret (rl, account_id, region, bucket))))))))))"

text \<open>
  \<^verbatim>\<open>! ../scripts/build_and_push.sh $account_id $region $ecr_repository_name\<close>:
  IPython replaces \<^verbatim>\<open>$name\<close> by \<^verbatim>\<open>str\<close> of the Python variable of that name; the command
  line is the text after \<^verbatim>\<open>!\<close>. The cell's \<^verbatim>\<open>%%capture\<close> hides the output only.
\<close>

definition build_and_push_cmd :: "string \<Rightarrow> string option \<Rightarrow> string \<Rightarrow> string" where
  "build_and_push_cmd account_id region repository =
     '' ../scripts/build_and_push.sh '' @ account_id @ '' '' @ py_str region @ '' '' @ repository"

definition cell_build_and_push :: "env \<Rightarrow> string \<Rightarrow> string option \<Rightarrow> unit step" where
  "cell_build_and_push e account_id region =
     shell e (build_and_push_cmd account_id region ecr_repository_name)"

text \<open>\<^verbatim>\<open>'{0}.dkr.ecr.{1}.amazonaws.com/{2}:latest'.format(account_id, region, ecr_repository_name)\<close>\<close>

definition container_image_uri :: "string \<Rightarrow> string option \<Rightarrow> string \<Rightarrow> py_error + string" where
  "container_image_uri account_id region repository =
     py_format ''{0}.dkr.ecr.{1}.amazonaws.com/{2}:latest'' [account_id, py_str region, repository]"

definition cell_image_uri :: "string \<Rightarrow> string option \<Rightarrow> string step" where
  "cell_image_uri account_id region =
     bind_step (call (container_image_uri account_id region ecr_repository_name)) (\<lambda>uri.
     bind_step (py_print uri) (\<lambda>_.
     ret uri))"

text \<open>The S3 job: the estimator with its hyperparameters, the two S3 channels, and the call
  of \<^verbatim>\<open>fit\<close>, in a cell under \<^verbatim>\<open>%%time\<close>.\<close>

definition s3_estimator :: "string \<Rightarrow> string \<Rightarrow> estimator" where
  "s3_estimator uri rl =
     set_hyperparameters [(''hp1'', HStr ''value1''), (''hp2'', HInt 300), (''hp3'', HFloat ''0.001'')]
       (Estimator uri rl 1 ''ml.m5.xlarge'' prefix None None)"

definition train_config :: s3_input where
  "train_config =
     \<lparr>s3_data = ''s3://landsat-pds/L8/001/002/LC80010022016230LGN00/'', content_type = ''image/jpeg''\<rparr>"

definition val_config :: s3_input where
  "val_config =
     \<lparr>s3_data = ''s3://landsat-pds/L8/001/002/LC80010022016246LGN00/'', content_type = ''image/jpeg''\<rparr>"

definition s3_channels :: "(string \<times> channel) list" where
  "s3_channels = [(''train'', S3 train_config), (''validation'', S3 val_config)]"

definition cell_s3_job :: "env \<Rightarrow> string \<Rightarrow> string \<Rightarrow> unit step" where
  "cell_s3_job e uri rl = time_magic (est_fit e (s3_estimator uri rl) s3_channels)"

text \<open>The cell that builds the two EFS channels, statement by statement: it prints the file
  system id and the first value of \<^verbatim>\<open>file_system_directory_path\<close>, which is assigned a second
  time before the validation channel is built.\<close>

definition cell_file_system_inputs :: "(file_system_input \<times> file_system_input) step" where
  "cell_file_system_inputs =
     (let file_system_id = ''fs-df51afdb'' in
      bind_step (py_print (''EFS file-system-id: '' @ file_system_id)) (\<lambda>_.
     (let file_system_directory_path = ''/LC80010022016230LGN00'' in
      bind_step (py_print (''EFS file-system data input path: '' @ file_system_directory_path)) (\<lambda>_.
     (let file_system_access_mode = ''ro'';
          file_system_type = ''EFS'';
          train = \<lparr>file_system_id = file_system_id,
                   file_system_type = file_system_type,
                   directory_path = file_system_directory_path,
                   file_system_access_mode = file_system_access_mode\<rparr>;
          file_system_directory_path = ''/LC80010022016246LGN00'';
          validation = \<lparr>file_system_id = file_system_id,
                        file_system_type = file_system_type,
                        directory_path = file_system_directory_path,
                        file_system_access_mode = file_system_access_mode\<rparr>
      in ret (train, validation))))))"

text \<open>The EFS job: the estimator with its network placement and its hyperparameters, the two
  channels of the cell before, and the call of \<^verbatim>\<open>fit\<close>, in a cell under \<^verbatim>\<open>%%time\<close>.\<close>

definition efs_estimator :: "string \<Rightarrow> string \<Rightarrow> estimator" where
  "efs_estimator uri rl =
     (let security_group_ids = [''sg-0c21b70b7f1480a4e''];
          subnets = [''subnet-0370146357224ed30'']
      in set_hyperparameters [(''hp1'', HStr ''value1''), (''hp2'', HInt 300), (''hp3'', HFloat ''0.001'')]
           (Estimator uri rl 1 ''ml.m5.xlarge'' prefix (Some subnets) (Some security_group_ids)))"

definition data_channels :: "file_system_input \<Rightarrow> file_system_input \<Rightarrow> (string \<times> channel) list" where
  "data_channels train validation = [(''train'', FileSystem train), (''validation'', FileSystem validation)]"

definition cell_efs_job ::
  "env \<Rightarrow> string \<Rightarrow> string \<Rightarrow> file_system_input \<Rightarrow> file_system_input \<Rightarrow> unit step" where
  "cell_efs_job e uri rl train validation =
     time_magic (est_fit e (efs_estimator uri rl) (data_channels train validation))"

subsection \<open>The notebook\<close>

text \<open>The code cells in the notebook's order. Cells that hold only comments do nothing.\<close>

definition run :: "env \<Rightarrow> unit step" where
  "run e =
     bind_step (cell_setup e) (\<lambda>(rl, account_id, region, bucket).
     bind_step (shell e '' pygmentize ../docker/Dockerfile'') (\<lambda>_.
     bind_step (shell e '' pygmentize ../scripts/build_and_push.sh'') (\<lambda>_.
     bind_step (cell_build_and_push e account_id region) (\<lambda>_.
     bind_step (cell_image_uri account_id region) (\<lambda>uri.
     bind_step (shell e '' pygmentize ../docker/code/main.py'') (\<lambda>_.
     bind_step (cell_s3_job e uri rl) (\<lambda>_.
     bind_step (shell e ''sudo yum install -y amazon-efs-utils'') (\<lambda>_.
     bind_step (shell e ''echo $HOME'') (\<lambda>_.
     bind_step cell_file_system_inputs (\<lambda>(train, validation).
     cell_efs_job e uri rl train validation))))))))))"

subsection \<open>Reading a trace\<close>

text \<open>The command lines a trace ran, the jobs it submitted, the exceptions it showed as
  tracebacks, and an event without the exit status of its command.\<close>

fun commands :: "event list \<Rightarrow> string list" where
  "commands [] = []"
| "commands (Shell cmd st # evs) = cmd # commands evs"
| "commands (ev # evs) = commands evs"

fun submitted :: "event list \<Rightarrow> (estimator \<times> (string \<times> channel) list) list" where
  "submitted [] = []"
| "submitted (Fit est inputs # evs) = (est, inputs) # submitted evs"
| "submitted (ev # evs) = submitted evs"

fun tracebacks :: "event list \<Rightarrow> py_error list" where
  "tracebacks [] = []"
| "tracebacks (Traceback x # evs) = x # tracebacks evs"
| "tracebacks (ev # evs) = tracebacks evs"

fun forget_status :: "event \<Rightarrow> event" where
  "forget_status (Shell cmd st) = Shell cmd 0"
| "forget_status ev = ev"

subsection \<open>The words of a command line\<close>

text \<open>
  The shell splits a command line into words at blanks. A plain word is not empty and made
  of letters, digits and \<^verbatim>\<open>- _ . /\<close> only: characters the shell gives no meaning of its own,
  so that a plain word reaches the script as one positional argument, unchanged. The first
  word is the command, the others are its arguments.
\<close>

definition shell_words :: "string \<Rightarrow> string list" where
  "shell_words line = filter (\<lambda>w. w \<noteq> []) (split_on CHR '' '' line)"

definition plain_char :: "char \<Rightarrow> bool" where
  "plain_char c =
     (c \<in> set ''abcdefghijklmnopqrstuvwxyzABCDEFGHIJKLMNOPQRSTUVWXYZ0123456789-_./'')"

definition plain_word :: "string \<Rightarrow> bool" where
  "plain_word w = (w \<noteq> [] \<and> list_all plain_char w)"

subsection \<open>Example environments\<close>

text \<open>A notebook instance where every call succeeds, and the same instance with a
  build-and-push script that exits with status 1.\<close>

definition notebook_instance :: env where
  "notebook_instance =
     \<lparr>get_execution_role =
        Inr ''arn:aws:iam::123456789012:role/service-role/AmazonSageMaker-ExecutionRole'',
      region_name = Inr (Some ''us-east-1''),
      sagemaker_session = Inr (),
      default_bucket = Inr ''sagemaker-us-east-1-123456789012'',
      system = (\<lambda>cmd. 0),
      fit = (\<lambda>est inputs. Inr ())\<rparr>"

definition push_fails :: env where
  "push_fails =
     notebook_instance
       \<lparr>system :=
          (\<lambda>cmd. if cmd = build_and_push_cmd ''123456789012'' (Some ''us-east-1'') ecr_repository_name
                  then 1 else 0)\<rparr>"

text \<open>The same instance with a training service that refuses the S3 job (the job without
  subnets), and one that accepts it and fails the EFS job.\<close>

definition s3_job_fails :: env where
  "s3_job_fails =
     notebook_instance
       \<lparr>fit := (\<lambda>est inputs. if subnets est = None then Inl (Raised ''ClientError'') else Inr ())\<rparr>"

definition efs_job_fails :: env where
  "efs_job_fails =
     notebook_instance
       \<lparr>fit := (\<lambda>est inputs. if subnets est = None then Inr ()
                             else Inl (Raised ''UnexpectedStatusException''))\<rparr>"

section \<open>Running the cells\<close>

lemma bind_Inl: "bind_step (tr, Inl x) f = (tr, Inl x)"
  by (simp add: bind_step_def)

lemma bind_Inr: "bind_step (tr, Inr a) f = (tr @ fst (f a), snd (f a))"
  by (simp add: bind_step_def split: prod.splits)

lemma format_image_template:
  "py_format ''{0}.dkr.ecr.{1}.amazonaws.com/{2}:latest'' [a, r, n] =
     Inr (a @ ''.dkr.ecr.'' @ r @ ''.amazonaws.com/'' @ n @ '':latest'')"
  by (simp add: py_format_def is_digit_def digit_val_def)

lemma container_image_uri_str:
  "container_image_uri a r n =
     Inr (a @ ''.dkr.ecr.'' @ py_str r @ ''.amazonaws.com/'' @ n @ '':latest'')"
  by (simp add: container_image_uri_def format_image_template)

text \<open>The first cell stops at the first call that raises, before it prints anything.\<close>

lemma cell_setup_cases:
  "cell_setup e =
    (case get_execution_role e of Inl x \<Rightarrow> ([], Inl x) | Inr rl \<Rightarrow>
    (case account_id_of rl of Inl x \<Rightarrow> ([], Inl x) | Inr a \<Rightarrow>
    (case region_name e of Inl x \<Rightarrow> ([], Inl x) | Inr r \<Rightarrow>
    (case sagemaker_session e of Inl x \<Rightarrow> ([], Inl x) | Inr u \<Rightarrow>
    (case default_bucket e of Inl x \<Rightarrow> ([], Inl x) | Inr b \<Rightarrow>
       ([Print a, Print (py_str r), Print rl, Print b], Inr (rl, a, r, b)))))))"
  by (simp add: cell_setup_def call_def py_print_def ret_def bind_Inr bind_Inl split: sum.splits)

text \<open>The cell of the EFS channels raises nothing and returns the two channels.\<close>

lemma cell_file_system_inputs_eq:
  "cell_file_system_inputs =
     ([Print ''EFS file-system-id: fs-df51afdb'',
       Print ''EFS file-system data input path: /LC80010022016230LGN00''],
      Inr (\<lparr>file_system_id = ''fs-df51afdb'', file_system_type = ''EFS'',
            directory_path = ''/LC80010022016230LGN00'', file_system_access_mode = ''ro''\<rparr>,
           \<lparr>file_system_id = ''fs-df51afdb'', file_system_type = ''EFS'',
            directory_path = ''/LC80010022016246LGN00'', file_system_access_mode = ''ro''\<rparr>))"
  by (simp add: cell_file_system_inputs_def Let_def py_print_def ret_def bind_Inr)

lemma file_system_inputs_value:
  "snd cell_file_system_inputs =
     Inr (\<lparr>file_system_id = ''fs-df51afdb'', file_system_type = ''EFS'',
           directory_path = ''/LC80010022016230LGN00'', file_system_access_mode = ''ro''\<rparr>,
          \<lparr>file_system_id = ''fs-df51afdb'', file_system_type = ''EFS'',
           directory_path = ''/LC80010022016246LGN00'', file_system_access_mode = ''ro''\<rparr>)"
  by (simp add: cell_file_system_inputs_eq)

lemma cell_file_system_inputs_trace:
  assumes "snd cell_file_system_inputs = Inr (train, validation)"
  shows "cell_file_system_inputs =
     ([Print ''EFS file-system-id: fs-df51afdb'',
       Print ''EFS file-system data input path: /LC80010022016230LGN00''],
      Inr (train, validation))"
  using assms by (simp add: cell_file_system_inputs_eq)

text \<open>A cell under \<^verbatim>\<open>%%time\<close> lets no exception out.\<close>

lemma time_magic_Inl: "time_magic (tr, Inl x) = (tr @ [Traceback x], Inr ())"
  by (simp add: time_magic_def)

lemma time_magic_Inr: "time_magic (tr, Inr u) = (tr, Inr ())"
  by (simp add: time_magic_def)

text \<open>The cells after the first: only the two calls of \<^verbatim>\<open>fit\<close> can raise, and their cells
  show the exception and return.\<close>

lemma cells_after_setup:
  assumes "snd cell_file_system_inputs = Inr (train, validation)"
  shows
  "bind_step (shell e '' pygmentize ../docker/Dockerfile'') (\<lambda>_.
     bind_step (shell e '' pygmentize ../scripts/build_and_push.sh'') (\<lambda>_.
     bind_step (cell_build_and_push e a r) (\<lambda>_.
     bind_step (cell_image_uri a r) (\<lambda>uri.
     bind_step (shell e '' pygmentize ../docker/code/main.py'') (\<lambda>_.
     bind_step (cell_s3_job e uri rl) (\<lambda>_.
     bind_step (shell e ''sudo yum install -y amazon-efs-utils'') (\<lambda>_.
     bind_step (shell e ''echo $HOME'') (\<lambda>_.
     bind_step cell_file_system_inputs (\<lambda>(train', validation').
     cell_efs_job e uri rl train' validation'))))))))) =
   (let uri = a @ ''.dkr.ecr.'' @ py_str r @ ''.amazonaws.com/'' @ ecr_repository_name @ '':latest'';
        tr = [Shell '' pygmentize ../docker/Dockerfile'' (system e '' pygmentize ../docker/Dockerfile''),
              Shell '' pygmentize ../scripts/build_and_push.sh''
                (system e '' pygmentize ../scripts/build_and_push.sh''),
              Shell (build_and_push_cmd a r ecr_repository_name)
                (system e (build_and_push_cmd a r ecr_repository_name)),
              Print uri,
              Shell '' pygmentize ../docker/code/main.py'' (system e '' pygmentize ../docker/code/main.py''),
              Fit (s3_estimator uri rl) s3_channels]
    in (tr
        @ (case fit e (s3_estimator uri rl) s3_channels of
             Inl x \<Rightarrow> [Traceback x] | Inr u \<Rightarrow> [])
        @ [Shell ''sudo yum install -y amazon-efs-utils''
             (system e ''sudo yum install -y amazon-efs-utils''),
           Shell ''echo $HOME'' (system e ''echo $HOME''),
           Print ''EFS file-system-id: fs-df51afdb'',
           Print ''EFS file-system data input path: /LC80010022016230LGN00'',
           Fit (efs_estimator uri rl) (data_channels train validation)]
        @ (case fit e (efs_estimator uri rl) (data_channels train validation) of
             Inl x \<Rightarrow> [Traceback x] | Inr u \<Rightarrow> []),
        Inr ()))"
  by (simp add: Let_def shell_def cell_build_and_push_def cell_image_uri_def container_image_uri_str
      call_def py_print_def ret_def cell_s3_job_def est_fit_def
      cell_file_system_inputs_trace [OF assms] time_magic_Inl time_magic_Inr
      cell_efs_job_def bind_Inr bind_Inl split: sum.splits)

text \<open>The whole run, by the answers of the environment.\<close>

lemma run_cases:
  assumes "snd cell_file_system_inputs = Inr (train, validation)"
  shows
  "run e =
    (case get_execution_role e of Inl x \<Rightarrow> ([], Inl x) | Inr rl \<Rightarrow>
    (case account_id_of rl of Inl x \<Rightarrow> ([], Inl x) | Inr a \<Rightarrow>
    (case region_name e of Inl x \<Rightarrow> ([], Inl x) | Inr r \<Rightarrow>
    (case sagemaker_session e of Inl x \<Rightarrow> ([], Inl x) | Inr u \<Rightarrow>
    (case default_bucket e of Inl x \<Rightarrow> ([], Inl x) | Inr b \<Rightarrow>
   (let uri = a @ ''.dkr.ecr.'' @ py_str r @ ''.amazonaws.com/'' @ ecr_repository_name @ '':latest'';
        tr = [Print a, Print (py_str r), Print rl, Print b,
              Shell '' pygmentize ../docker/Dockerfile'' (system e '' pygmentize ../docker/Dockerfile''),
              Shell '' pygmentize ../scripts/build_and_push.sh''
                (system e '' pygmentize ../scripts/build_and_push.sh''),
              Shell (build_and_push_cmd a r ecr_repository_name)
                (system e (build_and_push_cmd a r ecr_repository_name)),
              Print uri,
              Shell '' pygmentize ../docker/code/main.py'' (system e '' pygmentize ../docker/code/main.py''),
              Fit (s3_estimator uri rl) s3_channels]
    in (tr
        @ (case fit e (s3_estimator uri rl) s3_channels of
             Inl x \<Rightarrow> [Traceback x] | Inr u \<Rightarrow> [])
        @ [Shell ''sudo yum install -y amazon-efs-utils''
             (system e ''sudo yum install -y amazon-efs-utils''),
           Shell ''echo $HOME'' (system e ''echo $HOME''),
           Print ''EFS file-system-id: fs-df51afdb'',
           Print ''EFS file-system data input path: /LC80010022016230LGN00'',
           Fit (efs_estimator uri rl) (data_channels train validation)]
        @ (case fit e (efs_estimator uri rl) (data_channels train validation) of
             Inl x \<Rightarrow> [Traceback x] | Inr u \<Rightarrow> []),
        Inr ())))))))"
  unfolding run_def cell_setup_cases
  by (simp add: Let_def bind_Inl bind_Inr cells_after_setup [OF assms, unfolded Let_def]
      split: sum.splits)

lemma run_forget_status:
  "map forget_status (fst (run (e\<lparr>system := f\<rparr>))) = map forget_status (fst (run e))
   \<and> snd (run (e\<lparr>system := f\<rparr>)) = snd (run e)"
  by (simp add: run_cases [OF file_system_inputs_value] Let_def split: sum.splits)

lemma account_id_of_example:
  "account_id_of ''arn:aws:iam::123456789012:role/service-role/AmazonSageMaker-ExecutionRole'' =
     Inr ''123456789012''"
  by (simp add: account_id_of_def py_index_def)

lemma container_image_uri_example:
  "container_image_uri ''123456789012'' (Some ''us-east-1'') ecr_repository_name =
     Inr ''123456789012.dkr.ecr.us-east-1.amazonaws.com/sagemaker-training-containers/basic-training-container:latest''"
  by (simp add: container_image_uri_str py_str_def ecr_repository_name_def ecr_namespace_def prefix_def)

lemma subnets_s3_estimator: "subnets (s3_estimator uri rl) = None"
  by (simp add: s3_estimator_def set_hyperparameters_def Estimator_def)

lemma subnets_efs_estimator: "subnets (efs_estimator uri rl) \<noteq> None"
  by (simp add: efs_estimator_def set_hyperparameters_def Estimator_def)

section \<open>Splitting a string\<close>

lemma split_on_not_Nil: "split_on sep s \<noteq> []"
  by (induction s) (auto split: list.splits)

lemma length_split_on: "length (split_on sep s) = Suc (count_list s sep)"
  by (induction s) (auto split: list.splits simp: split_on_not_Nil)

lemma split_on_field: "sep \<notin> set f \<Longrightarrow> split_on sep (f @ sep # rest) = f # split_on sep rest"
  by (induction f) (auto split: list.splits)

lemma split_on_last: "sep \<notin> set f \<Longrightarrow> split_on sep f = [f]"
  by (induction f) (auto split: list.splits)

text \<open>The fields hold no separator, and joined by it they give the string back: the
  fields are those of \<^verbatim>\<open>str.split\<close>.\<close>

lemma split_on_sep_free: "f \<in> set (split_on sep s) \<Longrightarrow> sep \<notin> set f"
  by (induction s arbitrary: f) (auto split: list.splits if_splits)

lemma split_on_join: "concat (map ((#) sep) (split_on sep s)) = sep # s"
  by (induction s) (auto split: list.splits simp: split_on_not_Nil)

text \<open>Plain words separated by single blanks are the words of the line.\<close>

lemma plain_char_not_blank: "plain_char c \<Longrightarrow> c \<noteq> CHR '' ''"
  by (auto simp: plain_char_def)

lemma plain_word_no_blank: "plain_word w \<Longrightarrow> CHR '' '' \<notin> set w"
  by (auto simp: plain_word_def list_all_iff dest: plain_char_not_blank)

lemma plain_word_not_Nil: "plain_word w \<Longrightarrow> w \<noteq> []"
  by (simp add: plain_word_def)

lemma shell_words_build_and_push:
  assumes "plain_word a" "plain_word (py_str r)" "plain_word n"
  shows "shell_words (build_and_push_cmd a r n) = [''../scripts/build_and_push.sh'', a, py_str r, n]"
proof -
  have script: "CHR '' '' \<notin> set ''../scripts/build_and_push.sh''"
    by simp
  have "split_on CHR '' '' (build_and_push_cmd a r n) =
      [[], ''../scripts/build_and_push.sh'', a, py_str r, n]"
    using split_on_field [OF script, of "a @ '' '' @ py_str r @ '' '' @ n"]
      split_on_field [OF plain_word_no_blank [OF assms(1)], of "py_str r @ '' '' @ n"]
      split_on_field [OF plain_word_no_blank [OF assms(2)], of n]
      split_on_last [OF plain_word_no_blank [OF assms(3)]]
    by (simp add: build_and_push_cmd_def)
  then show ?thesis
    using assms by (simp add: shell_words_def plain_word_not_Nil)
qed

section \<open>The image reference\<close>

text \<open>
  Claim C1. For every account id, region and repository name, the image reference is the
  concatenation \<^verbatim>\<open>{account}.dkr.ecr.{region}.amazonaws.com/{repository}:latest\<close>. It is
  composed from the three strings alone: the cell that composes it, run after the
  build-and-push cell, returns the same reference in every environment, whatever status the
  push exits with.
\<close>

theorem image_reference_is_concatenation:
  "container_image_uri account (Some region) repository =
     Inr (account @ ''.dkr.ecr.'' @ region @ ''.amazonaws.com/'' @ repository @ '':latest'')
   \<and> snd (bind_step (cell_build_and_push e account (Some region))
             (\<lambda>_. cell_image_uri account (Some region))) =
     Inr (account @ ''.dkr.ecr.'' @ region @ ''.amazonaws.com/'' @ ecr_repository_name @ '':latest'')"
  by (simp add: container_image_uri_str py_str_def cell_build_and_push_def shell_def
      cell_image_uri_def call_def py_print_def ret_def bind_Inr)

text \<open>
  Claim C2. The repository name of the notebook is
  \<^verbatim>\<open>sagemaker-training-containers/basic-training-container\<close>, and for the account
  \<^verbatim>\<open>123456789012\<close> and the region \<^verbatim>\<open>us-east-1\<close> the image reference is
  \<^verbatim>\<open>123456789012.dkr.ecr.us-east-1.amazonaws.com/sagemaker-training-containers/basic-training-container:latest\<close>.
\<close>

theorem image_reference_example:
  "ecr_repository_name = ''sagemaker-training-containers/basic-training-container''
   \<and> container_image_uri ''123456789012'' (Some ''us-east-1'') ecr_repository_name =
     Inr ''123456789012.dkr.ecr.us-east-1.amazonaws.com/sagemaker-training-containers/basic-training-container:latest''"
  by (simp add: ecr_repository_name_def ecr_namespace_def prefix_def container_image_uri_def
      py_format_def py_str_def is_digit_def digit_val_def)

section \<open>The EFS channels\<close>

text \<open>
  Claim C10. The cell returns the train and the validation channel of the EFS job, in this
  order. Both have the file system id \<^verbatim>\<open>fs-df51afdb\<close>, the type \<^verbatim>\<open>EFS\<close> and the access mode
  \<^verbatim>\<open>ro\<close>; the train channel reads \<^verbatim>\<open>/LC80010022016230LGN00\<close>, the validation channel
  \<^verbatim>\<open>/LC80010022016246LGN00\<close>, and the directory path is the only field in which they
  differ.
\<close>

theorem file_system_channels:
  "cell_file_system_inputs =
     ([Print ''EFS file-system-id: fs-df51afdb'',
       Print ''EFS file-system data input path: /LC80010022016230LGN00''],
      Inr (\<lparr>file_system_id = ''fs-df51afdb'', file_system_type = ''EFS'',
            directory_path = ''/LC80010022016230LGN00'', file_system_access_mode = ''ro''\<rparr>,
           \<lparr>file_system_id = ''fs-df51afdb'', file_system_type = ''EFS'',
            directory_path = ''/LC80010022016246LGN00'', file_system_access_mode = ''ro''\<rparr>))"
  by (simp add: cell_file_system_inputs_def Let_def py_print_def ret_def bind_Inr)

section \<open>The account id\<close>

text \<open>
  Claim C8. The account id is the fifth field of the role between colons (index 4 of
  \<^verbatim>\<open>role.split(':')\<close>): for a role made of five fields without a colon, followed or not by a
  colon and more text, it is the fifth. A role with fewer than four colons has fewer than
  five fields: the index is out of range, and the run ends with \<^verbatim>\<open>IndexError\<close> having
  printed, run and submitted nothing.
\<close>

theorem account_id_is_fifth_field:
  "(CHR '':'' \<notin> set f0 \<and> CHR '':'' \<notin> set f1 \<and> CHR '':'' \<notin> set f2 \<and> CHR '':'' \<notin> set f3
      \<and> CHR '':'' \<notin> set f4 \<longrightarrow>
      account_id_of (f0 @ '':'' @ f1 @ '':'' @ f2 @ '':'' @ f3 @ '':'' @ f4) = Inr f4
      \<and> account_id_of (f0 @ '':'' @ f1 @ '':'' @ f2 @ '':'' @ f3 @ '':'' @ f4 @ '':'' @ rest) = Inr f4)
   \<and> (count_list rl CHR '':'' < 4 \<longrightarrow> account_id_of rl = Inl IndexError)
   \<and> (get_execution_role e = Inr rl \<and> count_list rl CHR '':'' < 4 \<longrightarrow> run e = ([], Inl IndexError))"
proof (intro conjI impI)
  assume f: "CHR '':'' \<notin> set f0 \<and> CHR '':'' \<notin> set f1 \<and> CHR '':'' \<notin> set f2 \<and> CHR '':'' \<notin> set f3
      \<and> CHR '':'' \<notin> set f4"
  then show "account_id_of (f0 @ '':'' @ f1 @ '':'' @ f2 @ '':'' @ f3 @ '':'' @ f4) = Inr f4"
    by (simp add: account_id_of_def py_index_def split_on_field split_on_last)
  from f show "account_id_of (f0 @ '':'' @ f1 @ '':'' @ f2 @ '':'' @ f3 @ '':'' @ f4 @ '':'' @ rest) = Inr f4"
    by (simp add: account_id_of_def py_index_def split_on_field length_split_on)
next
  assume "count_list rl CHR '':'' < 4"
  then show "account_id_of rl = Inl IndexError"
    by (simp add: account_id_of_def py_index_def length_split_on)
next
  assume "get_execution_role e = Inr rl \<and> count_list rl CHR '':'' < 4"
  then show "run e = ([], Inl IndexError)"
    by (simp add: run_cases [OF file_system_inputs_value] account_id_of_def py_index_def
        length_split_on)
qed

theorem account_id_is_fifth_field_witness:
  "account_id_of ''arn:aws:iam::123456789012:role/service-role/AmazonSageMaker-ExecutionRole'' =
     Inr ''123456789012''
   \<and> account_id_of ''arn:aws:iam::123456789012'' = Inr ''123456789012''
   \<and> account_id_of ''arn:aws:iam:role'' = Inl IndexError
   \<and> run (notebook_instance\<lparr>get_execution_role := Inr ''arn:aws:iam:role''\<rparr>) = ([], Inl IndexError)"
  using account_id_is_fifth_field [of "''arn''" "''aws''" "''iam''" "''''" "''123456789012''"
      "''role/service-role/AmazonSageMaker-ExecutionRole''" "''arn:aws:iam:role''"
      "notebook_instance\<lparr>get_execution_role := Inr ''arn:aws:iam:role''\<rparr>"]
  by simp

section \<open>The build-and-push script\<close>

text \<open>
  Claim C6. The command line of the build-and-push cell is the script followed by the
  account id, the region and the repository name, in this order: for plain words, the
  shell's words of the line are the script and exactly these three arguments. A run whose
  first cell succeeds runs this line third, and once. Nothing reads the script's exit
  status: with any other answer of the shell, the run prints, runs and submits the same,
  and ends the same.
\<close>

theorem build_and_push_invocation:
  "(plain_word a \<and> plain_word (py_str r) \<and> plain_word n \<longrightarrow>
      shell_words (build_and_push_cmd a r n) = [''../scripts/build_and_push.sh'', a, py_str r, n])
   \<and> (get_execution_role e = Inr rl \<and> account_id_of rl = Inr a \<and> region_name e = Inr r
        \<and> sagemaker_session e = Inr () \<and> default_bucket e = Inr b \<longrightarrow>
      take 3 (commands (fst (run e))) =
        ['' pygmentize ../docker/Dockerfile'', '' pygmentize ../scripts/build_and_push.sh'',
         build_and_push_cmd a r ecr_repository_name]
      \<and> count_list (commands (fst (run e))) (build_and_push_cmd a r ecr_repository_name) = 1)
   \<and> map forget_status (fst (run (e\<lparr>system := f\<rparr>))) = map forget_status (fst (run e))
   \<and> snd (run (e\<lparr>system := f\<rparr>)) = snd (run e)"
proof (intro conjI impI)
  assume "plain_word a \<and> plain_word (py_str r) \<and> plain_word n"
  then show "shell_words (build_and_push_cmd a r n) = [''../scripts/build_and_push.sh'', a, py_str r, n]"
    by (simp add: shell_words_build_and_push)
next
  assume ok: "get_execution_role e = Inr rl \<and> account_id_of rl = Inr a \<and> region_name e = Inr r
        \<and> sagemaker_session e = Inr () \<and> default_bucket e = Inr b"
  then show "take 3 (commands (fst (run e))) =
        ['' pygmentize ../docker/Dockerfile'', '' pygmentize ../scripts/build_and_push.sh'',
         build_and_push_cmd a r ecr_repository_name]"
    by (simp add: run_cases [OF file_system_inputs_value] Let_def split: sum.splits)
  from ok show "count_list (commands (fst (run e))) (build_and_push_cmd a r ecr_repository_name) = 1"
    by (simp add: run_cases [OF file_system_inputs_value] Let_def build_and_push_cmd_def
        split: sum.splits)
next
  show "map forget_status (fst (run (e\<lparr>system := f\<rparr>))) = map forget_status (fst (run e))"
    by (simp add: run_forget_status)
  show "snd (run (e\<lparr>system := f\<rparr>)) = snd (run e)"
    by (simp add: run_forget_status)
qed

theorem build_and_push_invocation_witness:
  "shell_words (build_and_push_cmd ''123456789012'' (Some ''us-east-1'') ecr_repository_name) =
     [''../scripts/build_and_push.sh'', ''123456789012'', ''us-east-1'',
      ''sagemaker-training-containers/basic-training-container'']
   \<and> take 3 (commands (fst (run notebook_instance))) =
     ['' pygmentize ../docker/Dockerfile'', '' pygmentize ../scripts/build_and_push.sh'',
      '' ../scripts/build_and_push.sh 123456789012 us-east-1 sagemaker-training-containers/basic-training-container'']
   \<and> map forget_status (fst (run push_fails)) = map forget_status (fst (run notebook_instance))
   \<and> snd (run push_fails) = snd (run notebook_instance)"
  using build_and_push_invocation [where a = "''123456789012''" and r = "Some ''us-east-1''"
      and n = ecr_repository_name and e = notebook_instance
      and rl = "''arn:aws:iam::123456789012:role/service-role/AmazonSageMaker-ExecutionRole''"
      and b = "''sagemaker-us-east-1-123456789012''"
      and f = "system push_fails"]
  by (simp add: push_fails_def notebook_instance_def account_id_of_example plain_word_def
      plain_char_def py_str_def ecr_repository_name_def ecr_namespace_def prefix_def
      build_and_push_cmd_def)

section \<open>Failures\<close>

text \<open>
  Claim C7, amended to what the notebook does. An exception raised by an external call of
  the first cell (\<^verbatim>\<open>get_execution_role\<close>, the region of the boto3 session, the SageMaker
  session, its default bucket) ends the run with this very exception and an empty trace:
  nothing catches, classifies or retries it, and no later stage runs. Once the first cell
  has returned, no failure ends the run. A shell command that exits with a status that is
  not zero, the build-and-push script included, raises nothing. An exception raised by
  \<^verbatim>\<open>fit\<close> is caught by the \<^verbatim>\<open>%%time\<close> magic of its cell, which shows it, unchanged, as a
  traceback: the job is not submitted again, and the cells after it run, so that the EFS
  job is submitted after a failed S3 job. The run then has the trace below, with each job
  submitted once and all six commands run, and ends without an exception.
\<close>

theorem failures_in_the_run:
  "(get_execution_role e = Inl x \<longrightarrow> run e = ([], Inl x))
   \<and> (get_execution_role e = Inr rl \<and> account_id_of rl = Inr a \<longrightarrow>
       (region_name e = Inl x \<longrightarrow> run e = ([], Inl x))
     \<and> (region_name e = Inr r \<longrightarrow>
       (sagemaker_session e = Inl x \<longrightarrow> run e = ([], Inl x))
     \<and> (sagemaker_session e = Inr () \<longrightarrow>
       (default_bucket e = Inl x \<longrightarrow> run e = ([], Inl x))
     \<and> (default_bucket e = Inr b \<and> container_image_uri a r ecr_repository_name = Inr uri
          \<and> snd cell_file_system_inputs = Inr (train, validation) \<longrightarrow>
          run e =
            ([Print a, Print (py_str r), Print rl, Print b,
              Shell '' pygmentize ../docker/Dockerfile'' (system e '' pygmentize ../docker/Dockerfile''),
              Shell '' pygmentize ../scripts/build_and_push.sh''
                (system e '' pygmentize ../scripts/build_and_push.sh''),
              Shell (build_and_push_cmd a r ecr_repository_name)
                (system e (build_and_push_cmd a r ecr_repository_name)),
              Print uri,
              Shell '' pygmentize ../docker/code/main.py'' (system e '' pygmentize ../docker/code/main.py''),
              Fit (s3_estimator uri rl) s3_channels]
             @ (case fit e (s3_estimator uri rl) s3_channels of
                  Inl y \<Rightarrow> [Traceback y] | Inr u \<Rightarrow> [])
             @ [Shell ''sudo yum install -y amazon-efs-utils''
                  (system e ''sudo yum install -y amazon-efs-utils''),
                Shell ''echo $HOME'' (system e ''echo $HOME''),
                Print ''EFS file-system-id: fs-df51afdb'',
                Print ''EFS file-system data input path: /LC80010022016230LGN00'',
                Fit (efs_estimator uri rl) (data_channels train validation)]
             @ (case fit e (efs_estimator uri rl) (data_channels train validation) of
                  Inl y \<Rightarrow> [Traceback y] | Inr u \<Rightarrow> []),
             Inr ())
          \<and> submitted (fst (run e)) =
              [(s3_estimator uri rl, s3_channels),
               (efs_estimator uri rl, data_channels train validation)]
          \<and> commands (fst (run e)) =
              ['' pygmentize ../docker/Dockerfile'', '' pygmentize ../scripts/build_and_push.sh'',
               build_and_push_cmd a r ecr_repository_name, '' pygmentize ../docker/code/main.py'',
               ''sudo yum install -y amazon-efs-utils'', ''echo $HOME'']
          \<and> tracebacks (fst (run e)) =
              (case fit e (s3_estimator uri rl) s3_channels of Inl y \<Rightarrow> [y] | Inr u \<Rightarrow> [])
              @ (case fit e (efs_estimator uri rl) (data_channels train validation) of
                   Inl y \<Rightarrow> [y] | Inr u \<Rightarrow> [])))))"
proof (cases "snd cell_file_system_inputs = Inr (train, validation)")
  case True
  show ?thesis
    by (auto simp: run_cases [OF True] Let_def container_image_uri_str split: sum.splits)
next
  case False
  then show ?thesis
    by (auto simp: run_cases [OF file_system_inputs_value] Let_def split: sum.splits)
qed

theorem failures_in_the_run_witness:
  "run (notebook_instance\<lparr>get_execution_role := Inl (Raised ''NoCredentialsError'')\<rparr>) =
     ([], Inl (Raised ''NoCredentialsError''))
   \<and> run (notebook_instance\<lparr>region_name := Inl (Raised ''NoCredentialsError'')\<rparr>) =
     ([], Inl (Raised ''NoCredentialsError''))
   \<and> run (notebook_instance\<lparr>sagemaker_session := Inl (Raised ''NoRegionError'')\<rparr>) =
     ([], Inl (Raised ''NoRegionError''))
   \<and> run (notebook_instance\<lparr>default_bucket := Inl (Raised ''AccessDenied'')\<rparr>) =
     ([], Inl (Raised ''AccessDenied''))
   \<and> snd (run s3_job_fails) = Inr ()
   \<and> tracebacks (fst (run s3_job_fails)) = [Raised ''ClientError'']
   \<and> length (submitted (fst (run s3_job_fails))) = 2
   \<and> length (commands (fst (run s3_job_fails))) = 6
   \<and> snd (run efs_job_fails) = Inr ()
   \<and> tracebacks (fst (run efs_job_fails)) = [Raised ''UnexpectedStatusException'']
   \<and> length (submitted (fst (run efs_job_fails))) = 2
   \<and> length (commands (fst (run efs_job_fails))) = 6"
  using
    failures_in_the_run [where e = "notebook_instance\<lparr>get_execution_role := Inl (Raised ''NoCredentialsError'')\<rparr>"
      and x = "Raised ''NoCredentialsError''"]
    failures_in_the_run [where e = "notebook_instance\<lparr>region_name := Inl (Raised ''NoCredentialsError'')\<rparr>"
      and x = "Raised ''NoCredentialsError''"
      and rl = "''arn:aws:iam::123456789012:role/service-role/AmazonSageMaker-ExecutionRole''"
      and a = "''123456789012''"]
    failures_in_the_run [where e = "notebook_instance\<lparr>sagemaker_session := Inl (Raised ''NoRegionError'')\<rparr>"
      and x = "Raised ''NoRegionError''"
      and rl = "''arn:aws:iam::123456789012:role/service-role/AmazonSageMaker-ExecutionRole''"
      and a = "''123456789012''" and r = "Some ''us-east-1''"]
    failures_in_the_run [where e = "notebook_instance\<lparr>default_bucket := Inl (Raised ''AccessDenied'')\<rparr>"
      and x = "Raised ''AccessDenied''"
      and rl = "''arn:aws:iam::123456789012:role/service-role/AmazonSageMaker-ExecutionRole''"
      and a = "''123456789012''" and r = "Some ''us-east-1''"]
    failures_in_the_run [where e = s3_job_fails
      and x = "Raised ''ClientError''"
      and rl = "''arn:aws:iam::123456789012:role/service-role/AmazonSageMaker-ExecutionRole''"
      and a = "''123456789012''" and r = "Some ''us-east-1''"
      and b = "''sagemaker-us-east-1-123456789012''"
      and uri = "''123456789012.dkr.ecr.us-east-1.amazonaws.com/sagemaker-training-containers/basic-training-container:latest''"
      and train = "\<lparr>file_system_id = ''fs-df51afdb'', file_system_type = ''EFS'',
          directory_path = ''/LC80010022016230LGN00'', file_system_access_mode = ''ro''\<rparr>"
      and validation = "\<lparr>file_system_id = ''fs-df51afdb'', file_system_type = ''EFS'',
          directory_path = ''/LC80010022016246LGN00'', file_system_access_mode = ''ro''\<rparr>"]
    failures_in_the_run [where e = efs_job_fails
      and x = "Raised ''UnexpectedStatusException''"
      and rl = "''arn:aws:iam::123456789012:role/service-role/AmazonSageMaker-ExecutionRole''"
      and a = "''123456789012''" and r = "Some ''us-east-1''"
      and b = "''sagemaker-us-east-1-123456789012''"
      and uri = "''123456789012.dkr.ecr.us-east-1.amazonaws.com/sagemaker-training-containers/basic-training-container:latest''"
      and train = "\<lparr>file_system_id = ''fs-df51afdb'', file_system_type = ''EFS'',
          directory_path = ''/LC80010022016230LGN00'', file_system_access_mode = ''ro''\<rparr>"
      and validation = "\<lparr>file_system_id = ''fs-df51afdb'', file_system_type = ''EFS'',
          directory_path = ''/LC80010022016246LGN00'', file_system_access_mode = ''ro''\<rparr>"]
  by (simp add: notebook_instance_def s3_job_fails_def efs_job_fails_def account_id_of_example
      container_image_uri_example subnets_s3_estimator subnets_efs_estimator
      file_system_inputs_value)

text \<open>
  The claim as the specification words it has every failure of an external call end the
  run, the build-and-push script and the job submission included. Neither does. On an
  instance where the script exits with status 1, the run goes through, without an
  exception, and submits both jobs. On an instance where the training service refuses the
  S3 job, \<^verbatim>\<open>fit\<close> raises, the exception is shown as a traceback, the later cells install the
  EFS utilities and submit the EFS job, and the run ends without an exception.
\<close>

theorem later_stages_run_after_failure:
  "system push_fails (build_and_push_cmd ''123456789012'' (Some ''us-east-1'') ecr_repository_name) = 1
   \<and> Shell (build_and_push_cmd ''123456789012'' (Some ''us-east-1'') ecr_repository_name) 1
       \<in> set (fst (run push_fails))
   \<and> snd (run push_fails) = Inr ()
   \<and> length (submitted (fst (run push_fails))) = 2
   \<and> fit s3_job_fails
        (s3_estimator
           ''123456789012.dkr.ecr.us-east-1.amazonaws.com/sagemaker-training-containers/basic-training-container:latest''
           ''arn:aws:iam::123456789012:role/service-role/AmazonSageMaker-ExecutionRole'')
        s3_channels = Inl (Raised ''ClientError'')
   \<and> snd (run s3_job_fails) = Inr ()
   \<and> tracebacks (fst (run s3_job_fails)) = [Raised ''ClientError'']
   \<and> map fst (submitted (fst (run s3_job_fails))) =
       [s3_estimator
          ''123456789012.dkr.ecr.us-east-1.amazonaws.com/sagemaker-training-containers/basic-training-container:latest''
          ''arn:aws:iam::123456789012:role/service-role/AmazonSageMaker-ExecutionRole'',
        efs_estimator
          ''123456789012.dkr.ecr.us-east-1.amazonaws.com/sagemaker-training-containers/basic-training-container:latest''
          ''arn:aws:iam::123456789012:role/service-role/AmazonSageMaker-ExecutionRole'']
   \<and> commands (fst (run s3_job_fails)) =
       ['' pygmentize ../docker/Dockerfile'', '' pygmentize ../scripts/build_and_push.sh'',
        '' ../scripts/build_and_push.sh 123456789012 us-east-1 sagemaker-training-containers/basic-training-container'',
        '' pygmentize ../docker/code/main.py'',
        ''sudo yum install -y amazon-efs-utils'', ''echo $HOME'']"
  by (simp add: run_cases [OF file_system_inputs_value] push_fails_def s3_job_fails_def
      notebook_instance_def account_id_of_example subnets_s3_estimator subnets_efs_estimator
      build_and_push_cmd_def py_str_def ecr_repository_name_def ecr_namespace_def prefix_def
      Let_def)

section \<open>The two training jobs\<close>

text \<open>
  Claim C9. The estimator of the S3 job has the image reference and the role of the run,
  one instance of type \<^verbatim>\<open>ml.m5.xlarge\<close>, the base job name \<^verbatim>\<open>basic-training-container\<close>, the
  hyperparameters \<^verbatim>\<open>hp1 = 'value1'\<close>, \<^verbatim>\<open>hp2 = 300\<close>, \<^verbatim>\<open>hp3 = 0.001\<close>, and neither subnets nor
  security groups. The estimator of the EFS job is the same but for its subnets and its
  security groups, which are set. A run that gets as far submits the two jobs with the
  same image reference and the same role, each with its own input channels.
\<close>

theorem job_specifications_agree:
  "s3_estimator uri rl =
     \<lparr>image_name = uri, role = rl, train_instance_count = 1, train_instance_type = ''ml.m5.xlarge'',
      base_job_name = ''basic-training-container'', subnets = None, security_group_ids = None,
      hyperparam_dict = [(''hp1'', HStr ''value1''), (''hp2'', HInt 300), (''hp3'', HFloat ''0.001'')]\<rparr>
   \<and> efs_estimator uri rl =
     (s3_estimator uri rl)
       \<lparr>subnets := Some [''subnet-0370146357224ed30''],
        security_group_ids := Some [''sg-0c21b70b7f1480a4e'']\<rparr>
   \<and> (get_execution_role e = Inr rl \<and> account_id_of rl = Inr a \<and> region_name e = Inr r
        \<and> sagemaker_session e = Inr () \<and> default_bucket e = Inr b
        \<and> container_image_uri a r ecr_repository_name = Inr uri
        \<and> fit e (s3_estimator uri rl) s3_channels = Inr ()
        \<and> snd cell_file_system_inputs = Inr (train, validation) \<longrightarrow>
      submitted (fst (run e)) =
        [(s3_estimator uri rl, s3_channels),
         (efs_estimator uri rl, data_channels train validation)])"
proof (intro conjI impI)
  show "s3_estimator uri rl =
     \<lparr>image_name = uri, role = rl, train_instance_count = 1, train_instance_type = ''ml.m5.xlarge'',
      base_job_name = ''basic-training-container'', subnets = None, security_group_ids = None,
      hyperparam_dict = [(''hp1'', HStr ''value1''), (''hp2'', HInt 300), (''hp3'', HFloat ''0.001'')]\<rparr>"
    by (simp add: s3_estimator_def set_hyperparameters_def Estimator_def prefix_def)
  show "efs_estimator uri rl =
     (s3_estimator uri rl)
       \<lparr>subnets := Some [''subnet-0370146357224ed30''],
        security_group_ids := Some [''sg-0c21b70b7f1480a4e'']\<rparr>"
    by (simp add: efs_estimator_def s3_estimator_def set_hyperparameters_def Estimator_def Let_def)
next
  assume "get_execution_role e = Inr rl \<and> account_id_of rl = Inr a \<and> region_name e = Inr r
        \<and> sagemaker_session e = Inr () \<and> default_bucket e = Inr b
        \<and> container_image_uri a r ecr_repository_name = Inr uri
        \<and> fit e (s3_estimator uri rl) s3_channels = Inr ()
        \<and> snd cell_file_system_inputs = Inr (train, validation)"
  then have tv: "snd cell_file_system_inputs = Inr (train, validation)"
      and ok: "get_execution_role e = Inr rl" "account_id_of rl = Inr a" "region_name e = Inr r"
        "sagemaker_session e = Inr ()" "default_bucket e = Inr b"
        "container_image_uri a r ecr_repository_name = Inr uri"
        "fit e (s3_estimator uri rl) s3_channels = Inr ()"
    by simp_all
  from ok show "submitted (fst (run e)) =
        [(s3_estimator uri rl, s3_channels),
         (efs_estimator uri rl, data_channels train validation)]"
    by (auto simp: run_cases [OF tv] Let_def container_image_uri_str split: sum.splits)
qed

theorem job_specifications_agree_witness:
  "submitted (fst (run notebook_instance)) =
     [(s3_estimator
         ''123456789012.dkr.ecr.us-east-1.amazonaws.com/sagemaker-training-containers/basic-training-container:latest''
         ''arn:aws:iam::123456789012:role/service-role/AmazonSageMaker-ExecutionRole'',
       s3_channels),
      (efs_estimator
         ''123456789012.dkr.ecr.us-east-1.amazonaws.com/sagemaker-training-containers/basic-training-container:latest''
         ''arn:aws:iam::123456789012:role/service-role/AmazonSageMaker-ExecutionRole'',
       data_channels
         \<lparr>file_system_id = ''fs-df51afdb'', file_system_type = ''EFS'',
          directory_path = ''/LC80010022016230LGN00'', file_system_access_mode = ''ro''\<rparr>
         \<lparr>file_system_id = ''fs-df51afdb'', file_system_type = ''EFS'',
          directory_path = ''/LC80010022016246LGN00'', file_system_access_mode = ''ro''\<rparr>)]"
  using job_specifications_agree [where e = notebook_instance
      and rl = "''arn:aws:iam::123456789012:role/service-role/AmazonSageMaker-ExecutionRole''"
      and a = "''123456789012''" and r = "Some ''us-east-1''"
      and b = "''sagemaker-us-east-1-123456789012''"
      and uri = "''123456789012.dkr.ecr.us-east-1.amazonaws.com/sagemaker-training-containers/basic-training-container:latest''"
      and train = "\<lparr>file_system_id = ''fs-df51afdb'', file_system_type = ''EFS'',
          directory_path = ''/LC80010022016230LGN00'', file_system_access_mode = ''ro''\<rparr>"
      and validation = "\<lparr>file_system_id = ''fs-df51afdb'', file_system_type = ''EFS'',
          directory_path = ''/LC80010022016246LGN00'', file_system_access_mode = ''ro''\<rparr>"]
  by (simp add: notebook_instance_def account_id_of_example container_image_uri_example
      file_system_inputs_value)

end
